theory Spec2Isabelle
  imports Main
begin

section \<open>Python values used by the tools\<close>

text \<open>
  A Python \<open>str\<close> is modelled as a \<open>string\<close>; one \<open>char\<close> of the model stands for one
  character of the Python string, so \<open>length\<close> is Python's \<open>len\<close>.
\<close>

definition NL :: char where
  "NL = CHR 0x0A"

definition CR :: char where
  "CR = CHR 0x0D"

datatype py_error = IndexError | ValueError | TypeError

definition digit_char :: "nat \<Rightarrow> char" where
  "digit_char d = ''0123456789'' ! d"

fun str_nat :: "nat \<Rightarrow> string" where
  "str_nat n = (if n < 10 then [digit_char n] else str_nat (n div 10) @ [digit_char (n mod 10)])"

declare str_nat.simps [simp del]

definition str_int :: "int \<Rightarrow> string" where
  \<comment> \<open>\<open>str(i)\<close>, which is what \<open>f"{i}"\<close> renders for an int\<close>
  "str_int i = (if i < 0 then CHR ''-'' # str_nat (nat (- i)) else str_nat (nat i))"

definition fmt_opt :: "string option \<Rightarrow> string" where
  \<comment> \<open>\<open>f"{x}"\<close> for a value that is a str or None\<close>
  "fmt_opt x = (case x of None \<Rightarrow> ''None'' | Some s \<Rightarrow> s)"

definition py_slice :: "'a list \<Rightarrow> int \<Rightarrow> int \<Rightarrow> 'a list" where
  \<comment> \<open>\<open>xs[start:stop]\<close>: negative bounds count from the end, all bounds are clipped\<close>
  "py_slice xs start stop =
     (let n = int (length xs);
          s = (if start < 0 then max 0 (n + start) else min start n);
          e = (if stop < 0 then max 0 (n + stop) else min stop n)
      in take (nat (e - s)) (drop (nat s) xs))"

definition py_index :: "'a list \<Rightarrow> int \<Rightarrow> py_error + 'a" where
  \<comment> \<open>subscription \<open>xs[i]\<close> of a Python list, with \<open>xs[-1]\<close> the last element\<close>
  "py_index xs i =
     (if 0 \<le> i \<and> i < int (length xs) then Inr (xs ! nat i)
      else if i < 0 \<and> - int (length xs) \<le> i then Inr (xs ! nat (int (length xs) + i))
      else Inl IndexError)"

section \<open>File content extraction tool\<close>

text \<open>
  \<open>FileContentExtractionTool._execute\<close> of \<open>task/tools/files/file_content_extraction_tool.py\<close>.
  Of the parsed arguments, \<open>file_url\<close> is typed as the tool's JSON schema declares it, a
  required string; \<open>page\<close> is any JSON value, or \<open>None\<close> when the key is absent, so that
  the comparison \<open>page > 1\<close> can raise as it does in Python (a number with a fraction is
  outside the model). The text extractor (\<open>DialFileContentExtractor.extract_text\<close>) is a
  parameter: it returns the text or nothing. The stage is the list of the pieces appended
  to it, in order.

  The statements under \<open>if not content:\<close> are the assignment of the error text and the
  whole block of step 11 (page size, total pages, the three branches on \<open>page\<close>): the
  block is indented as the body of that \<open>if\<close>, and no test of the length of the content
  stands before it.
\<close>

datatype json =
    JNull
  | JBool bool
  | JInt int
  | JStr string
  | JArray "json list"
  | JObject "(string \<times> json) list"

datatype py_num = PyInt int | PyBool bool

definition as_num :: "json \<Rightarrow> py_error + py_num" where
  \<comment> \<open>the values that Python orders against an int: an int or a bool; any other
      operand of \<open><\<close> or \<open>>\<close> raises TypeError\<close>
  "as_num v = (case v of JInt i \<Rightarrow> Inr (PyInt i) | JBool b \<Rightarrow> Inr (PyBool b) | _ \<Rightarrow> Inl TypeError)"

definition num_val :: "py_num \<Rightarrow> int" where
  "num_val n = (case n of PyInt i \<Rightarrow> i | PyBool b \<Rightarrow> (if b then 1 else 0))"

definition fmt_num :: "py_num \<Rightarrow> string" where
  \<comment> \<open>\<open>f"{page}"\<close>\<close>
  "fmt_num n = (case n of PyInt i \<Rightarrow> str_int i | PyBool b \<Rightarrow> (if b then ''True'' else ''False''))"

record fce_arguments =
  arg_file_url :: string
  arg_page :: "json option"

definition fce_show_in_stage :: bool where
  "fce_show_in_stage = False"

definition stage_append :: "bool \<Rightarrow> string \<Rightarrow> string list \<Rightarrow> string list" where
  "stage_append cond piece stage = (if cond then stage @ [piece] else stage)"

definition page_footer :: "py_num \<Rightarrow> int \<Rightarrow> string" where
  "page_footer page total_pages =
     [NL, NL] @ ''**Page #'' @ fmt_num page @ ''. Total pages: '' @ str_int total_pages @ ''**''"

definition page_error :: "py_num \<Rightarrow> int \<Rightarrow> string" where
  "page_error page total_pages =
     ''Error: Page '' @ fmt_num page @ '' does not exist. Total pages: '' @ str_int total_pages"

definition fce_no_content :: "py_num \<Rightarrow> py_num \<times> string" where
  \<comment> \<open>the body of \<open>if not content:\<close>: the new values of \<open>page\<close> and \<open>content\<close>\<close>
  "fce_no_content page =
     (let content = ''Error: File content not found.'';
          page_size = 10000;
          total_pages = (int (length content) + page_size - 1) div page_size
      in if num_val page < 1 then (PyInt 1, content)
         else if num_val page > total_pages then (page, page_error page total_pages)
         else (let start_index = (num_val page - 1) * page_size;
                   end_index = start_index + page_size;
                   page_content = py_slice content start_index end_index
               in (page, page_content @ page_footer page total_pages)))"

definition fce_execute ::
  "(string \<Rightarrow> string option) \<Rightarrow> fce_arguments \<Rightarrow> string list
     \<Rightarrow> string list \<times> (py_error + string)" where
  "fce_execute extract_text arguments stage0 =
     (let file_url = arg_file_url arguments;
          page = (case arg_page arguments of None \<Rightarrow> JInt 1 | Some p \<Rightarrow> p);
          stage1 = stage_append (\<not> fce_show_in_stage) (''## Request arguments: '' @ [NL]) stage0;
          stage2 = stage_append (\<not> fce_show_in_stage)
                     (''**File URL**: '' @ file_url @ [NL, CR]) stage1
      in case as_num page of
           Inl e \<Rightarrow> (stage2, Inl e)
         | Inr n \<Rightarrow>
             (let stage3 = stage_append (num_val n > 1 \<and> \<not> fce_show_in_stage)
                             (''**Page**: '' @ fmt_num n @ [NL, CR]) stage2;
                  stage4 = stage_append (\<not> fce_show_in_stage) (''## Response: '' @ [NL]) stage3;
                  content = (case extract_text file_url of
                               None \<Rightarrow> snd (fce_no_content n)
                             | Some t \<Rightarrow> if t = [] then snd (fce_no_content n) else t);
                  stage5 = stage_append (\<not> fce_show_in_stage)
                             (''```text'' @ [NL, CR] @ content @ [NL, CR] @ ''```'' @ [NL, CR]) stage4
              in (stage5, Inr content)))"

definition fce_result ::
  "(string \<Rightarrow> string option) \<Rightarrow> fce_arguments \<Rightarrow> py_error + string" where
  "fce_result extract_text arguments = snd (fce_execute extract_text arguments [])"

section \<open>Deployment tools\<close>

text \<open>
  \<open>DeploymentTool._execute\<close> of \<open>task/tools/deployment/base.py\<close>. The parsed argument
  payload is a Python dict from keys to values; a value is \<open>None\<close> (Python's \<open>None\<close>) or
  \<open>Some v\<close>, with \<open>'v\<close> the type of the other JSON values. The downstream deployment is a
  parameter \<open>create\<close>: it maps the request to the chunks of the completed stream.
\<close>

record attachment =
  att_type :: "string option"
  att_title :: "string option"
  att_data :: "string option"
  att_url :: "string option"
  att_reference_url :: "string option"
  att_reference_type :: "string option"

record custom_content =
  attachments :: "attachment list option"

record delta =
  delta_content :: "string option"
  delta_custom_content :: "custom_content option"

record stream_choice =
  choice_delta :: "delta option"

record chunk =
  chunk_choices :: "stream_choice list"

datatype role = SYSTEM | USER | ASSISTANT | TOOL

record message =
  msg_role :: role
  msg_content :: "string option"
  msg_custom_content :: "custom_content option"
  msg_tool_call_id :: "string option"

record 'v request =
  req_messages :: "(string \<times> 'v option) list"
  req_stream :: bool
  req_deployment_name :: string
  req_configuration :: "string \<rightharpoonup> 'v option"
  req_parameters :: "string \<rightharpoonup> 'v option"

datatype stage_item = Content string | Attachment attachment

definition dict_get :: "(string \<rightharpoonup> 'v option) \<Rightarrow> string \<Rightarrow> 'v option" where
  \<comment> \<open>\<open>d.get(k)\<close>: \<open>None\<close> for an absent key\<close>
  "dict_get d k = (case d k of None \<Rightarrow> None | Some v \<Rightarrow> v)"

definition dict_pop :: "(string \<rightharpoonup> 'v option) \<Rightarrow> string \<Rightarrow> (string \<rightharpoonup> 'v option)" where
  \<comment> \<open>the dict after \<open>d.pop(k, None)\<close>\<close>
  "dict_pop d k = d(k := None)"

definition deployment_request ::
  "string \<Rightarrow> (string \<rightharpoonup> 'v option) \<Rightarrow> (string \<rightharpoonup> 'v option) \<Rightarrow> 'v request" where
  \<comment> \<open>steps 1 to 5: the request handed to \<open>client.chat.completions.create\<close>\<close>
  "deployment_request deployment_name tool_parameters arguments0 =
     (let prompt = dict_get arguments0 ''prompt'';
          arguments = dict_pop arguments0 ''prompt''
      in \<lparr>req_messages = [(''user'', prompt)],
          req_stream = True,
          req_deployment_name = deployment_name,
          req_configuration = arguments,
          req_parameters = tool_parameters\<rparr>)"

definition collect_chunk ::
  "stage_item list \<times> string \<times> attachment list \<Rightarrow> chunk
     \<Rightarrow> stage_item list \<times> string \<times> attachment list" where
  \<comment> \<open>one round of the \<open>async for\<close> loop of step 6\<close>
  "collect_chunk acc chunk =
     (case acc of (stage, content, collected) \<Rightarrow>
        (case chunk_choices chunk of
           [] \<Rightarrow> acc
         | c # _ \<Rightarrow>
             (case choice_delta c of
                None \<Rightarrow> acc
              | Some d \<Rightarrow>
                  (let text = (case delta_content d of None \<Rightarrow> [] | Some t \<Rightarrow> t);
                       stage1 = (if text \<noteq> [] then stage @ [Content text] else stage);
                       content1 = (if text \<noteq> [] then content @ text else content)
                   in case delta_custom_content d of
                        None \<Rightarrow> (stage1, content1, collected)
                      | Some cc \<Rightarrow>
                          (case attachments cc of
                             None \<Rightarrow> (stage1, content1, collected)
                           | Some new \<Rightarrow>
                               if new = [] then (stage1, content1, collected)
                               else (stage1 @ map Attachment new, content1, collected @ new))))))"

definition deployment_execute ::
  "('v request \<Rightarrow> chunk list) \<Rightarrow> string \<Rightarrow> (string \<rightharpoonup> 'v option) \<Rightarrow> string
     \<Rightarrow> (string \<rightharpoonup> 'v option) \<Rightarrow> stage_item list
     \<Rightarrow> 'v request \<times> stage_item list \<times> message" where
  "deployment_execute create deployment_name tool_parameters tool_call_id arguments stage0 =
     (let req = deployment_request deployment_name tool_parameters arguments;
          chunks = create req;
          (stage, content, collected) = foldl collect_chunk (stage0, [], []) chunks
      in (req, stage,
          \<lparr>msg_role = TOOL,
           msg_content = Some content,
           msg_custom_content = Some \<lparr>attachments = Some collected\<rparr>,
           msg_tool_call_id = Some tool_call_id\<rparr>))"

text \<open>
  What one chunk of the stream carries, read off the chunk alone: the text and the
  attachments of the delta of its first choice.
\<close>

definition chunk_text :: "chunk \<Rightarrow> string" where
  "chunk_text chunk =
     (case chunk_choices chunk of
        [] \<Rightarrow> []
      | c # _ \<Rightarrow> (case choice_delta c of
                    None \<Rightarrow> []
                  | Some d \<Rightarrow> (case delta_content d of None \<Rightarrow> [] | Some t \<Rightarrow> t)))"

definition chunk_attachments :: "chunk \<Rightarrow> attachment list" where
  "chunk_attachments chunk =
     (case chunk_choices chunk of
        [] \<Rightarrow> []
      | c # _ \<Rightarrow> (case choice_delta c of
                    None \<Rightarrow> []
                  | Some d \<Rightarrow> (case delta_custom_content d of
                                None \<Rightarrow> []
                              | Some cc \<Rightarrow> (case attachments cc of None \<Rightarrow> [] | Some new \<Rightarrow> new))))"

subsection \<open>Image generation tool\<close>

text \<open>
  \<open>ImageGenerationTool._execute\<close> of \<open>task/tools/deployment/image_generation_tool.py\<close>:
  the base step, then the attachments of the returned message are looked at. The choice
  (the final-answer sink) is the list of the pieces appended to it.
\<close>

definition image_deployment_name :: string where
  "image_deployment_name = ''dall-e-3''"

definition image_confirmation :: string where
  "image_confirmation =
     ''The image has been successfully generated according to request and shown to user!''"

definition image_markdown :: "attachment \<Rightarrow> string" where
  "image_markdown a = [NL, CR] @ ''![image]('' @ fmt_opt (att_url a) @ '')'' @ [NL, CR]"

definition is_inline_image :: "attachment \<Rightarrow> bool" where
  \<comment> \<open>\<open>attachment.type in ["image/png", "image/jpeg"]\<close>\<close>
  "is_inline_image a = (att_type a = Some ''image/png'' \<or> att_type a = Some ''image/jpeg'')"

definition message_attachments :: "message \<Rightarrow> attachment list" where
  \<comment> \<open>\<open>message.custom_content.attachments\<close>, empty when either is absent\<close>
  "message_attachments m =
     (case msg_custom_content m of
        None \<Rightarrow> []
      | Some cc \<Rightarrow> (case attachments cc of None \<Rightarrow> [] | Some as \<Rightarrow> as))"

definition image_post ::
  "message \<Rightarrow> string list \<Rightarrow> string list \<times> message" where
  \<comment> \<open>steps 2 to 4, on the message of the base step and the choice\<close>
  "image_post m choice0 =
     (if message_attachments m \<noteq> [] then
        (let choice1 = choice0 @ map image_markdown (filter is_inline_image (message_attachments m));
             m1 = (if msg_content m = None \<or> msg_content m = Some []
                   then m\<lparr>msg_content := Some image_confirmation\<rparr> else m)
         in (choice1, m1))
      else (choice0, m))"

definition image_execute ::
  "('v request \<Rightarrow> chunk list) \<Rightarrow> string \<Rightarrow> (string \<rightharpoonup> 'v option) \<Rightarrow> stage_item list
     \<Rightarrow> string list \<Rightarrow> 'v request \<times> stage_item list \<times> string list \<times> message" where
  "image_execute create tool_call_id arguments stage0 choice0 =
     (let (req, stage, m) =
            deployment_execute create image_deployment_name Map.empty tool_call_id arguments stage0;
          (choice1, m1) = image_post m choice0
      in (req, stage, choice1, m1))"

subsection \<open>Streams for the examples\<close>

definition text_chunk :: "string \<Rightarrow> chunk" where
  "text_chunk t =
     \<lparr>chunk_choices = [\<lparr>choice_delta = Some \<lparr>delta_content = Some t, delta_custom_content = None\<rparr>\<rparr>]\<rparr>"

definition file_attachment :: "string \<Rightarrow> string \<Rightarrow> attachment" where
  "file_attachment ty url =
     \<lparr>att_type = Some ty, att_title = None, att_data = None, att_url = Some url,
      att_reference_url = None, att_reference_type = None\<rparr>"

definition attachment_chunk :: "attachment list \<Rightarrow> chunk" where
  "attachment_chunk as =
     \<lparr>chunk_choices = [\<lparr>choice_delta = Some \<lparr>delta_content = None,
         delta_custom_content = Some \<lparr>attachments = Some as\<rparr>\<rparr>\<rparr>]\<rparr>"

definition example_stream :: "chunk list" where
  "example_stream =
     [text_chunk ''Hel'', \<lparr>chunk_choices = []\<rparr>, text_chunk ''lo'',
      attachment_chunk [file_attachment ''image/png'' ''files/cat.png'',
                        file_attachment ''application/pdf'' ''files/notes.pdf''],
      attachment_chunk [file_attachment ''image/jpeg'' ''files/dog.jpg'']]"

definition example_arguments :: "string \<rightharpoonup> string option" where
  "example_arguments = [''prompt'' \<mapsto> Some ''a cat'', ''size'' \<mapsto> Some ''1024x1024'']"

section \<open>RAG tool\<close>

text \<open>
  \<open>RagTool._execute\<close> of \<open>task/tools/rag/rag_tool.py\<close>. The arguments are typed as the
  tool's JSON schema declares them, two required strings. The collaborators outside the
  repository are parameters, gathered in an environment: the text extractor, the text
  splitter, the sentence embedding (\<open>'e\<close> is the type of an embedding), the distance
  between two embeddings (\<open>'d\<close> is a linear order standing for the float distances) and
  the downstream deployment. The state holds the document cache, the stage and the list of
  the calls made to the cache and to the collaborators, in order.
\<close>

definition SYSTEM_PROMPT :: string where
  "SYSTEM_PROMPT =
     [NL] @ ''You are a helpful assistant for question-answering tasks based on retrieved chunks of documents.''
     @ [NL] @ ''You receive a question and some chunks of documents that are relevant to this question. ''
     @ ''Your task is to provide a comprehensive and accurate answer to the question using the information from the retrieved chunks. ''
     @ [NL] @ ''Make sure to use the retrieved chunks effectively to construct your answer. ''
     @ ''If the information in the chunks is not sufficient to answer the question, do your best to provide a relevant and informative response based on the available data. ''
     @ ''Always try to give the most complete answer possible, and if you are unsure about something, make that clear in your response.''
     @ [NL]"

record rag_arguments =
  rag_request :: string
  rag_file_url :: string

record ('e, 'd) rag_env =
  env_extract_text :: "string \<Rightarrow> string option"
  env_split_text :: "string \<Rightarrow> string list"
  env_encode :: "string \<Rightarrow> 'e"
  env_distance :: "'e \<Rightarrow> 'e \<Rightarrow> 'd"
  env_generate :: "(role \<times> string) list \<Rightarrow> chunk list"

datatype rag_call =
    Cache_get string
  | Extract_text string
  | Split_text string
  | Encode_chunks "string list"
  | Index_add nat
  | Cache_set string
  | Encode_request string
  | Index_search nat
  | Generate string

type_synonym 'e document_cache = "string \<rightharpoonup> 'e list \<times> string list"

record 'e rag_state =
  rs_cache :: "'e document_cache"
  rs_stage :: "string list"
  rs_calls :: "rag_call list"

definition cache_get :: "'e document_cache \<Rightarrow> string \<Rightarrow> ('e list \<times> string list) option" where
  \<comment> \<open>Modelled from the spec: \<open>DocumentCache.get\<close> of \<open>task/tools/rag/document_cache.py\<close>,
      which is not among the sources; \<open>get(key) -> CacheEntry | absent\<close>, a lookup\<close>
  "cache_get cache key = cache key"

definition cache_set ::
  "'e document_cache \<Rightarrow> string \<Rightarrow> 'e list \<Rightarrow> string list \<Rightarrow> 'e document_cache" where
  \<comment> \<open>Modelled from the spec: \<open>DocumentCache.set\<close> of \<open>task/tools/rag/document_cache.py\<close>,
      which is not among the sources; \<open>set(key, index, chunks) -> void\<close> stores the pair under
      the key. The eviction, whose policy the spec leaves open, is not modelled\<close>
  "cache_set cache key index chunks = cache(key \<mapsto> (index, chunks))"

definition cache_document_key :: "string \<Rightarrow> string \<Rightarrow> string" where
  \<comment> \<open>\<open>f"{tool_call_params.conversation_id}_{file_url}"\<close>\<close>
  "cache_document_key conversation_id file_url = conversation_id @ ''_'' @ file_url"

definition index_search :: "('e \<Rightarrow> 'e \<Rightarrow> 'd::linorder) \<Rightarrow> 'e list \<Rightarrow> 'e \<Rightarrow> nat \<Rightarrow> int list" where
  \<comment> \<open>\<open>index.search(np.array([q]), k)[1][0]\<close> for a \<open>faiss.IndexFlatL2\<close> holding the vectors
      \<open>index\<close> in the order they were added: the row of labels always has \<open>k\<close> entries, the
      positions of the nearest vectors first, and \<open>-1\<close> in the places for which the index
      has no vector left\<close>
  "index_search distance index q k =
     map int (take k (sort_key (\<lambda>i. distance q (index ! i)) [0..<length index]))
       @ replicate (k - length index) (- 1)"

fun retrieved_chunks :: "'a list \<Rightarrow> int list \<Rightarrow> py_error + 'a list" where
  \<comment> \<open>\<open>[chunks[idx] for idx in indices[0]]\<close>\<close>
  "retrieved_chunks chunks [] = Inr []"
| "retrieved_chunks chunks (idx # rest) =
     (case py_index chunks idx of
        Inl e \<Rightarrow> Inl e
      | Inr c \<Rightarrow> (case retrieved_chunks chunks rest of
                   Inl e \<Rightarrow> Inl e
                 | Inr cs \<Rightarrow> Inr (c # cs)))"

definition rag_retrieve ::
  "('e \<Rightarrow> 'e \<Rightarrow> 'd::linorder) \<Rightarrow> 'e list \<Rightarrow> string list \<Rightarrow> 'e \<Rightarrow> py_error + string list" where
  \<comment> \<open>steps 12 and 13: the search with \<open>k=3\<close> and the chunks at the labels\<close>
  "rag_retrieve distance index chunks query_embedding =
     retrieved_chunks chunks (index_search distance index query_embedding 3)"

fun chunk_lines :: "nat \<Rightarrow> string list \<Rightarrow> string" where
  \<comment> \<open>the loop over \<open>enumerate(chunks)\<close>, from position \<open>i\<close> on\<close>
  "chunk_lines i [] = []"
| "chunk_lines i (c # cs) =
     ''Chunk '' @ str_int (int i + 1) @ '':'' @ [NL] @ c @ [NL, NL] @ chunk_lines (Suc i) cs"

definition augmentation :: "string \<Rightarrow> string list \<Rightarrow> string" where
  "augmentation request chunks =
     ''Use the following retrieved chunks from the document to answer the question:'' @ [NL, NL]
     @ chunk_lines 0 chunks
     @ ''Question: '' @ request @ [NL, NL] @ ''Answer:''"

definition collect_response :: "string list \<times> string \<Rightarrow> chunk \<Rightarrow> string list \<times> string" where
  \<comment> \<open>one round of the \<open>async for\<close> loop of step 18\<close>
  "collect_response acc chunk =
     (case acc of (stage, response_content) \<Rightarrow>
        (case chunk_choices chunk of
           [] \<Rightarrow> acc
         | c # _ \<Rightarrow>
             (case choice_delta c of
                None \<Rightarrow> acc
              | Some d \<Rightarrow>
                  (case delta_content d of
                     None \<Rightarrow> acc
                   | Some t \<Rightarrow> if t = [] then acc else (stage @ [t], response_content @ t)))))"

definition rag_answer ::
  "('e, 'd::linorder) rag_env \<Rightarrow> string \<Rightarrow> 'e list \<Rightarrow> string list \<Rightarrow> 'e rag_state
     \<Rightarrow> 'e rag_state \<times> (py_error + string)" where
  \<comment> \<open>steps 11 to 19, with the index and the chunks in hand\<close>
  "rag_answer env request index chunks st =
     (let query_embedding = env_encode env request;
          st1 = st\<lparr>rs_calls := rs_calls st @ [Encode_request request, Index_search 3]\<rparr>
      in case rag_retrieve (env_distance env) index chunks query_embedding of
           Inl e \<Rightarrow> (st1, Inl e)
         | Inr retrieved \<Rightarrow>
             (let augmented_prompt = augmentation request retrieved;
                  stage1 = rs_stage st1 @
                    [''## RAG Request: '' @ [NL],
                     ''```text'' @ [NL, CR] @ augmented_prompt @ [NL, CR] @ ''```'' @ [NL, CR],
                     ''## Response: '' @ [NL]];
                  stream = env_generate env [(SYSTEM, SYSTEM_PROMPT), (USER, augmented_prompt)];
                  (stage2, response_content) = foldl collect_response (stage1, []) stream
              in (st1\<lparr>rs_stage := stage2,
                      rs_calls := rs_calls st1 @ [Generate augmented_prompt]\<rparr>,
                  Inr response_content)))"

definition rag_no_text :: "'e rag_state \<Rightarrow> 'e rag_state \<times> (py_error + string)" where
  \<comment> \<open>the branch \<open>if not text_content\<close>\<close>
  "rag_no_text st =
     (st\<lparr>rs_stage := rs_stage st @ [''No text content could be extracted from the file.'']\<rparr>,
      Inr ''Error: File content not found.'')"

definition rag_build ::
  "('e, 'd::linorder) rag_env \<Rightarrow> string \<Rightarrow> string \<Rightarrow> string \<Rightarrow> 'e rag_state
     \<Rightarrow> 'e rag_state \<times> (py_error + string)" where
  \<comment> \<open>the rest of the branch of a cache miss, with the extracted text in hand: chunks,
      embeddings, index, cache entry, then the answer. \<open>index.add\<close> raises on the array of
      no embeddings, which has no second dimension\<close>
  "rag_build env request key text st =
     (let chunks = env_split_text env text;
          embeddings = map (env_encode env) chunks;
          st1 = st\<lparr>rs_calls := rs_calls st @
                  [Split_text text, Encode_chunks chunks, Index_add (length embeddings)]\<rparr>
      in if embeddings = [] then (st1, Inl ValueError)
         else
           (let index = [] @ embeddings;
                st2 = st1\<lparr>rs_cache := cache_set (rs_cache st1) key index chunks,
                         rs_calls := rs_calls st1 @ [Cache_set key]\<rparr>
            in rag_answer env request index chunks st2))"

definition rag_execute ::
  "('e, 'd::linorder) rag_env \<Rightarrow> string \<Rightarrow> rag_arguments \<Rightarrow> 'e rag_state
     \<Rightarrow> 'e rag_state \<times> (py_error + string)" where
  "rag_execute env conversation_id arguments st =
     (let request = rag_request arguments;
          file_url = rag_file_url arguments;
          stage1 = rs_stage st @
            [''## Request arguments: '' @ [NL],
             ''**Request**: '' @ request @ [NL, CR],
             ''**File URL**: '' @ file_url @ [NL, CR]];
          key = cache_document_key conversation_id file_url;
          st1 = st\<lparr>rs_stage := stage1, rs_calls := rs_calls st @ [Cache_get key]\<rparr>
      in case cache_get (rs_cache st1) key of
           Some (index, chunks) \<Rightarrow> rag_answer env request index chunks st1
         | None \<Rightarrow>
             (let st2 = st1\<lparr>rs_calls := rs_calls st1 @ [Extract_text file_url]\<rparr>
              in case env_extract_text env file_url of
                   None \<Rightarrow> rag_no_text st2
                 | Some text \<Rightarrow>
                     if text = [] then rag_no_text st2
                     else rag_build env request key text st2))"

subsection \<open>An environment for the examples\<close>

definition example_env :: "(int, int) rag_env" where
  "example_env =
     \<lparr>env_extract_text = (\<lambda>u. if u = ''files/a.txt'' then Some ''alpha beta'' else None),
      env_split_text = (\<lambda>t. [take 5 t, drop 6 t]),
      env_encode = (\<lambda>s. int (length s)),
      env_distance = (\<lambda>a b. \<bar>a - b\<bar>),
      env_generate = (\<lambda>messages. example_stream)\<rparr>"

definition example_state :: "int rag_state" where
  "example_state =
     \<lparr>rs_cache = [''conv1_files/a.txt'' \<mapsto> ([5, 4], [''alpha'', ''beta''])],
      rs_stage = [],
      rs_calls = []\<rparr>"

section \<open>Properties of the file content extraction tool\<close>

lemma str_int_digits:
  "str_int 1 = ''1''" "str_int 2 = ''2''" "str_int 3 = ''3''" "str_int 4 = ''4''" "str_int 7 = ''7''"
  by (simp_all add: str_int_def str_nat.simps digit_char_def)

lemma fce_result_text:
  "extract_text url = Some content \<Longrightarrow> content \<noteq> [] \<Longrightarrow> as_num page = Inr n \<Longrightarrow>
   fce_result extract_text \<lparr>arg_file_url = url, arg_page = Some page\<rparr> = Inr content"
  by (simp add: fce_result_def fce_execute_def Let_def)

lemma fce_result_text_default:
  "extract_text url = Some content \<Longrightarrow> content \<noteq> [] \<Longrightarrow>
   fce_result extract_text \<lparr>arg_file_url = url, arg_page = None\<rparr> = Inr content"
  by (simp add: fce_result_def fce_execute_def Let_def as_num_def)

lemma fce_result_no_content:
  "extract_text url = None \<or> extract_text url = Some [] \<Longrightarrow> as_num page = Inr n \<Longrightarrow>
   fce_result extract_text \<lparr>arg_file_url = url, arg_page = Some page\<rparr> =
     Inr (snd (fce_no_content n))"
  by (auto simp add: fce_result_def fce_execute_def Let_def)

lemma fce_no_content_int:
  "snd (fce_no_content (PyInt page)) =
     (if page < 1 then ''Error: File content not found.''
      else if 1 < page then ''Error: Page '' @ str_int page @ '' does not exist. Total pages: 1''
      else ''Error: File content not found.'' @ [NL, NL] @ ''**Page #1. Total pages: 1**'')"
proof -
  have one: "\<not> page < 1 \<Longrightarrow> \<not> 1 < page \<Longrightarrow> page = 1" by simp
  show ?thesis
    by (auto simp add: fce_no_content_def Let_def num_val_def fmt_num_def page_error_def
          page_footer_def py_slice_def str_int_digits dest: one)
qed

text \<open>
  Claim C2, on the code. A text of more than 10000 characters is not paginated: for every
  integer page, and for the default page, the tool returns the whole text, with no
  footer and no out-of-range error. The three branches on the page run only under
  \<open>if not content:\<close>, on the text \<open>Error: File content not found.\<close>
\<close>

theorem fce_long_text_returned_whole:
  fixes content :: string
  assumes ext: "extract_text url = Some content" and long: "10000 < length content"
  shows "fce_result extract_text \<lparr>arg_file_url = url, arg_page = Some (JInt page)\<rparr> = Inr content
       \<and> fce_result extract_text \<lparr>arg_file_url = url, arg_page = None\<rparr> = Inr content"
proof -
  from long have ne: "content \<noteq> []" by auto
  have n: "as_num (JInt page) = Inr (PyInt page)" by (simp add: as_num_def)
  show ?thesis
    using fce_result_text [of extract_text url content "JInt page" "PyInt page"]
      fce_result_text_default [of extract_text url content] ext ne n
    by simp
qed

theorem fce_long_text_returned_whole_witness:
  "10000 < length (replicate 25000 (CHR ''x''))
   \<and> fce_result (\<lambda>u. Some (replicate 25000 (CHR ''x'')))
         \<lparr>arg_file_url = ''doc'', arg_page = Some (JInt 1)\<rparr> = Inr (replicate 25000 (CHR ''x''))
   \<and> fce_result (\<lambda>u. Some (replicate 25000 (CHR ''x'')))
         \<lparr>arg_file_url = ''doc'', arg_page = Some (JInt 3)\<rparr> = Inr (replicate 25000 (CHR ''x''))
   \<and> fce_result (\<lambda>u. Some (replicate 25000 (CHR ''x'')))
         \<lparr>arg_file_url = ''doc'', arg_page = Some (JInt 4)\<rparr> = Inr (replicate 25000 (CHR ''x''))
   \<and> fce_result (\<lambda>u. Some (replicate 25000 (CHR ''x'')))
         \<lparr>arg_file_url = ''doc'', arg_page = Some (JInt 4)\<rparr>
       \<noteq> Inr ''Error: Page 4 does not exist. Total pages: 3''"
proof -
  have l: "10000 < length (replicate 25000 (CHR ''x''))" by simp
  have d: "length (replicate 25000 (CHR ''x''))
             \<noteq> length ''Error: Page 4 does not exist. Total pages: 3''"
    by simp
  then have "replicate 25000 (CHR ''x'') \<noteq> ''Error: Page 4 does not exist. Total pages: 3''"
    by metis
  then show ?thesis
    using l
      fce_long_text_returned_whole
        [of "\<lambda>u. Some (replicate 25000 (CHR ''x''))" "''doc''" "replicate 25000 (CHR ''x'')" 1]
      fce_long_text_returned_whole
        [of "\<lambda>u. Some (replicate 25000 (CHR ''x''))" "''doc''" "replicate 25000 (CHR ''x'')" 3]
      fce_long_text_returned_whole
        [of "\<lambda>u. Some (replicate 25000 (CHR ''x''))" "''doc''" "replicate 25000 (CHR ''x'')" 4]
    by simp
qed

text \<open>
  Claim C3, on the code. The page is looked at only when the extraction gives no text.
  With a text, every integer page returns the text itself: a page beyond the last one
  gives no error. Without a text, a page below 1 returns
  \<open>Error: File content not found.\<close> with no footer, page 1 returns that text with the
  footer \<open>Page #1. Total pages: 1\<close>, and a page above 1 returns
  \<open>Error: Page {page} does not exist. Total pages: 1\<close>. A page that is \<open>null\<close> or a
  string raises TypeError at the comparison \<open>page > 1\<close>.
\<close>

theorem fce_page_checked_only_without_text:
  fixes content :: string
  shows "(extract_text url = Some content \<and> content \<noteq> [] \<longrightarrow>
            fce_result extract_text \<lparr>arg_file_url = url, arg_page = Some (JInt page)\<rparr> =
              Inr content)
       \<and> (extract_text url = None \<or> extract_text url = Some [] \<longrightarrow>
            fce_result extract_text \<lparr>arg_file_url = url, arg_page = Some (JInt page)\<rparr> =
              Inr (if page < 1 then ''Error: File content not found.''
                   else if 1 < page
                     then ''Error: Page '' @ str_int page @ '' does not exist. Total pages: 1''
                   else ''Error: File content not found.'' @ [NL, NL]
                          @ ''**Page #1. Total pages: 1**''))
       \<and> fce_result extract_text \<lparr>arg_file_url = url, arg_page = Some JNull\<rparr> = Inl TypeError
       \<and> fce_result extract_text \<lparr>arg_file_url = url, arg_page = Some (JStr s)\<rparr> = Inl TypeError"
proof -
  have n: "as_num (JInt page) = Inr (PyInt page)" by (simp add: as_num_def)
  have a: "extract_text url = Some content \<and> content \<noteq> [] \<longrightarrow>
            fce_result extract_text \<lparr>arg_file_url = url, arg_page = Some (JInt page)\<rparr> =
              Inr content"
    using fce_result_text [of extract_text url content "JInt page" "PyInt page"] n by simp
  have b: "extract_text url = None \<or> extract_text url = Some [] \<longrightarrow>
            fce_result extract_text \<lparr>arg_file_url = url, arg_page = Some (JInt page)\<rparr> =
              Inr (if page < 1 then ''Error: File content not found.''
                   else if 1 < page
                     then ''Error: Page '' @ str_int page @ '' does not exist. Total pages: 1''
                   else ''Error: File content not found.'' @ [NL, NL]
                          @ ''**Page #1. Total pages: 1**'')"
    using fce_result_no_content [of extract_text url "JInt page" "PyInt page"] n
    by (simp only: fce_no_content_int) simp
  have c: "fce_result extract_text \<lparr>arg_file_url = url, arg_page = Some JNull\<rparr> = Inl TypeError"
    by (simp add: fce_result_def fce_execute_def Let_def as_num_def)
  have d: "fce_result extract_text \<lparr>arg_file_url = url, arg_page = Some (JStr s)\<rparr> = Inl TypeError"
    by (simp add: fce_result_def fce_execute_def Let_def as_num_def)
  show ?thesis using a b c d by (simp only: simp_thms)
qed

theorem fce_page_checked_only_without_text_witness:
  "fce_result (\<lambda>u. Some (replicate 10001 (CHR ''x'')))
       \<lparr>arg_file_url = ''doc'', arg_page = Some (JInt 7)\<rparr> = Inr (replicate 10001 (CHR ''x''))
   \<and> fce_result (\<lambda>u. Some ''abc'') \<lparr>arg_file_url = ''doc'', arg_page = Some (JInt 2)\<rparr> = Inr ''abc''
   \<and> fce_result (\<lambda>u. None) \<lparr>arg_file_url = ''doc'', arg_page = Some (JInt 0)\<rparr>
       = Inr ''Error: File content not found.''
   \<and> fce_result (\<lambda>u. None) \<lparr>arg_file_url = ''doc'', arg_page = Some (JInt 1)\<rparr>
       = Inr (''Error: File content not found.'' @ [NL, NL] @ ''**Page #1. Total pages: 1**'')
   \<and> fce_result (\<lambda>u. None) \<lparr>arg_file_url = ''doc'', arg_page = Some (JInt 2)\<rparr>
       = Inr ''Error: Page 2 does not exist. Total pages: 1''"
  using fce_page_checked_only_without_text
      [of "\<lambda>u. Some (replicate 10001 (CHR ''x''))" "''doc''" "replicate 10001 (CHR ''x'')" 7]
    fce_page_checked_only_without_text [of "\<lambda>u. Some ''abc''" "''doc''" "''abc''" 2]
    fce_page_checked_only_without_text [of "\<lambda>u. None" "''doc''" "[]" 0]
    fce_page_checked_only_without_text [of "\<lambda>u. None" "''doc''" "[]" 1]
    fce_page_checked_only_without_text [of "\<lambda>u. None" "''doc''" "[]" 2]
  by (simp add: str_int_digits)

section \<open>Properties of the deployment tools\<close>

lemma collect_chunk_snd:
  "snd (collect_chunk (stage, content, coll) c) =
     (content @ chunk_text c, coll @ chunk_attachments c)"
  by (simp add: collect_chunk_def chunk_text_def chunk_attachments_def Let_def
        split: list.splits option.splits)

lemma foldl_collect_chunk_snd:
  "snd (foldl collect_chunk (stage, content, coll) cs) =
     (content @ concat (map chunk_text cs), coll @ concat (map chunk_attachments cs))"
proof (induction cs arbitrary: stage content coll)
  case Nil
  then show ?case by simp
next
  case (Cons c cs)
  obtain stage' content' coll'
    where st: "collect_chunk (stage, content, coll) c = (stage', content', coll')"
    by (cases "collect_chunk (stage, content, coll) c") auto
  from collect_chunk_snd [of stage content coll c] st
  have "content' = content @ chunk_text c" and "coll' = coll @ chunk_attachments c"
    by simp_all
  then show ?case using Cons.IH [of stage' content' coll'] st by simp
qed

lemma deployment_execute_req:
  "fst (deployment_execute create name params tcid arguments stage0) =
     deployment_request name params arguments"
  by (simp add: deployment_execute_def Let_def split: prod.splits)

lemma deployment_execute_message:
  "snd (snd (deployment_execute create name params tcid arguments stage0)) =
     \<lparr>msg_role = TOOL,
      msg_content = Some (concat (map chunk_text (create (deployment_request name params arguments)))),
      msg_custom_content = Some \<lparr>attachments =
         Some (concat (map chunk_attachments (create (deployment_request name params arguments))))\<rparr>,
      msg_tool_call_id = Some tcid\<rparr>"
proof -
  let ?cs = "create (deployment_request name params arguments)"
  obtain stage content coll
    where f: "foldl collect_chunk (stage0, [], []) ?cs = (stage, content, coll)"
    by (cases "foldl collect_chunk (stage0, [], []) ?cs") auto
  from foldl_collect_chunk_snd [of stage0 "[]" "[]" ?cs] f
  have "content = concat (map chunk_text ?cs)" and "coll = concat (map chunk_attachments ?cs)"
    by simp_all
  then show ?thesis using f by (simp add: deployment_execute_def Let_def)
qed

lemma example_stream_text: "concat (map chunk_text example_stream) = ''Hello''"
  by (simp add: example_stream_def text_chunk_def attachment_chunk_def chunk_text_def)

lemma example_stream_attachments:
  "concat (map chunk_attachments example_stream) =
     [file_attachment ''image/png'' ''files/cat.png'',
      file_attachment ''application/pdf'' ''files/notes.pdf'',
      file_attachment ''image/jpeg'' ''files/dog.jpg'']"
  by (simp add: example_stream_def text_chunk_def attachment_chunk_def chunk_attachments_def)

text \<open>
  Claim C7. When the parsed payload has a \<open>prompt\<close> key, its value is the content of the
  one user message of the request, the configuration of the request is the payload without
  that key, so every other key keeps its value, and the returned message has the role
  tool, the texts of all chunks of the stream concatenated in order as content, the
  attachments of all chunks in order, and the id of the tool call.
\<close>

theorem deployment_execute_forwards_and_collects:
  assumes p: "arguments ''prompt'' = Some prompt"
  shows "req_messages (fst (deployment_execute create name params tcid arguments stage0))
           = [(''user'', prompt)]
       \<and> req_configuration (fst (deployment_execute create name params tcid arguments stage0))
           = arguments(''prompt'' := None)
       \<and> (\<forall>k v. k \<noteq> ''prompt'' \<and> arguments k = Some v \<longrightarrow>
            req_configuration (fst (deployment_execute create name params tcid arguments stage0)) k
              = Some v)
       \<and> snd (snd (deployment_execute create name params tcid arguments stage0)) =
           \<lparr>msg_role = TOOL,
            msg_content = Some (concat (map chunk_text
               (create (fst (deployment_execute create name params tcid arguments stage0))))),
            msg_custom_content = Some \<lparr>attachments = Some (concat (map chunk_attachments
               (create (fst (deployment_execute create name params tcid arguments stage0)))))\<rparr>,
            msg_tool_call_id = Some tcid\<rparr>"
  using p
  by (simp add: deployment_execute_req deployment_execute_message
        deployment_request_def dict_get_def dict_pop_def Let_def)

theorem deployment_execute_forwards_and_collects_witness:
  "example_arguments ''prompt'' = Some (Some ''a cat'')
   \<and> req_messages (fst (deployment_execute (\<lambda>r. example_stream) ''dall-e-3'' Map.empty
         ''call_1'' example_arguments [])) = [(''user'', Some ''a cat'')]
   \<and> req_configuration (fst (deployment_execute (\<lambda>r. example_stream) ''dall-e-3'' Map.empty
         ''call_1'' example_arguments [])) ''size'' = Some (Some ''1024x1024'')
   \<and> snd (snd (deployment_execute (\<lambda>r. example_stream) ''dall-e-3'' Map.empty
         ''call_1'' example_arguments []))
       = \<lparr>msg_role = TOOL, msg_content = Some ''Hello'',
          msg_custom_content = Some \<lparr>attachments = Some
            [file_attachment ''image/png'' ''files/cat.png'',
             file_attachment ''application/pdf'' ''files/notes.pdf'',
             file_attachment ''image/jpeg'' ''files/dog.jpg'']\<rparr>,
          msg_tool_call_id = Some ''call_1''\<rparr>"
  using deployment_execute_forwards_and_collects
    [of example_arguments "Some ''a cat''" "\<lambda>r. example_stream" "''dall-e-3''" Map.empty
      "''call_1''" "[]"]
  by (simp add: example_arguments_def example_stream_text example_stream_attachments)

text \<open>
  Claim C10. When the parsed payload has no \<open>prompt\<close> key, the argument handling does not
  fail: the request is issued with the one user message whose content is \<open>None\<close> and with
  the whole payload as configuration, and the result is built from the stream of that
  request.
\<close>

theorem deployment_execute_without_prompt:
  assumes p: "arguments ''prompt'' = None"
  shows "fst (deployment_execute create name params tcid arguments stage0) =
           \<lparr>req_messages = [(''user'', None)],
            req_stream = True,
            req_deployment_name = name,
            req_configuration = arguments,
            req_parameters = params\<rparr>
       \<and> msg_content (snd (snd (deployment_execute create name params tcid arguments stage0))) =
           Some (concat (map chunk_text (create
             \<lparr>req_messages = [(''user'', None)],
              req_stream = True,
              req_deployment_name = name,
              req_configuration = arguments,
              req_parameters = params\<rparr>)))"
proof -
  have "arguments(''prompt'' := None) = arguments" using p by (rule_tac ext) simp
  then show ?thesis using p
    by (simp add: deployment_execute_req deployment_execute_message
        deployment_request_def dict_get_def dict_pop_def Let_def)
qed

theorem deployment_execute_without_prompt_witness:
  "[''size'' \<mapsto> Some ''1024x1024''] ''prompt'' = None
   \<and> fst (deployment_execute (\<lambda>r. example_stream) ''dall-e-3'' Map.empty ''call_1''
         [''size'' \<mapsto> Some ''1024x1024''] [])
       = \<lparr>req_messages = [(''user'', None)], req_stream = True,
          req_deployment_name = ''dall-e-3'',
          req_configuration = [''size'' \<mapsto> Some ''1024x1024''],
          req_parameters = Map.empty\<rparr>
   \<and> msg_content (snd (snd (deployment_execute (\<lambda>r. example_stream) ''dall-e-3'' Map.empty
         ''call_1'' [''size'' \<mapsto> Some ''1024x1024''] []))) = Some ''Hello''"
  using deployment_execute_without_prompt
    [of "[''size'' \<mapsto> Some ''1024x1024'']" "\<lambda>r. example_stream" "''dall-e-3''" Map.empty
      "''call_1''" "[]"]
  by (simp add: example_stream_text)

subsection \<open>Image generation tool\<close>

lemma image_execute_parts:
  "image_execute create tcid arguments stage0 choice0 =
     (fst (deployment_execute create image_deployment_name Map.empty tcid arguments stage0),
      fst (snd (deployment_execute create image_deployment_name Map.empty tcid arguments stage0)),
      image_post (snd (snd (deployment_execute create image_deployment_name Map.empty tcid
                              arguments stage0))) choice0)"
  by (simp add: image_execute_def Let_def split: prod.splits)

lemma message_attachments_image_post:
  "message_attachments (snd (image_post m choice0)) = message_attachments m"
  by (simp add: image_post_def message_attachments_def Let_def)

lemma choice_image_post:
  "fst (image_post m choice0) =
     choice0 @ map image_markdown (filter is_inline_image (message_attachments m))"
  by (simp add: image_post_def Let_def)

lemma base_message_attachments:
  "message_attachments
     (snd (snd (deployment_execute create name params tcid arguments stage0))) =
   concat (map chunk_attachments (create (deployment_request name params arguments)))"
  by (simp add: deployment_execute_message message_attachments_def)

text \<open>
  Claim C8, as the code has it. When the base step returned no text and at least one
  attachment, the content of the result is the fixed confirmation sentence. When the base
  step returned no attachment, the message of the base step is returned as it is.
\<close>

theorem image_execute_confirmation:
  fixes create :: "'v request \<Rightarrow> chunk list" and arguments :: "string \<rightharpoonup> 'v option"
    and tcid :: string and stage0 :: "stage_item list"
  defines "base \<equiv> snd (snd (deployment_execute create image_deployment_name Map.empty tcid
                               arguments stage0))"
  shows "(msg_content base = Some [] \<and> message_attachments base \<noteq> [] \<longrightarrow>
            msg_content (snd (snd (snd (image_execute create tcid arguments stage0 choice0)))) =
              Some image_confirmation)
       \<and> (message_attachments base = [] \<longrightarrow>
            snd (snd (snd (image_execute create tcid arguments stage0 choice0))) = base)"
  by (simp add: image_execute_parts image_post_def Let_def base_def)

theorem image_execute_confirmation_witness:
  "msg_content (snd (snd (deployment_execute
       (\<lambda>r. [attachment_chunk [file_attachment ''image/png'' ''files/cat.png'']])
       image_deployment_name Map.empty ''call_1'' example_arguments []))) = Some []
   \<and> message_attachments (snd (snd (deployment_execute
       (\<lambda>r. [attachment_chunk [file_attachment ''image/png'' ''files/cat.png'']])
       image_deployment_name Map.empty ''call_1'' example_arguments []))) \<noteq> []
   \<and> msg_content (snd (snd (snd (image_execute
       (\<lambda>r. [attachment_chunk [file_attachment ''image/png'' ''files/cat.png'']])
       ''call_1'' example_arguments [] []))))
     = Some ''The image has been successfully generated according to request and shown to user!''"
  using image_execute_confirmation
    [where create = "\<lambda>r. [attachment_chunk [file_attachment ''image/png'' ''files/cat.png'']]"
       and arguments = example_arguments and tcid = "''call_1''"
       and ?stage0.0 = "[]" and ?choice0.0 = "[]"]
  by (simp add: deployment_execute_message message_attachments_def attachment_chunk_def
        chunk_text_def chunk_attachments_def image_confirmation_def)

text \<open>
  Claim C8 as stated fails when the stream carries neither text nor attachments: the
  base step returns the empty content, and the image tool returns it unchanged.
\<close>

theorem image_execute_no_attachments_counterexample:
  "msg_content (snd (snd (deployment_execute (\<lambda>r. [])
       image_deployment_name Map.empty ''call_1'' example_arguments []))) = Some []
   \<and> msg_content (snd (snd (snd (image_execute (\<lambda>r. []) ''call_1'' example_arguments [] []))))
       = Some []
   \<and> msg_content (snd (snd (snd (image_execute (\<lambda>r. []) ''call_1'' example_arguments [] []))))
       \<noteq> Some image_confirmation"
  by (simp add: image_execute_parts deployment_execute_message image_post_def
        message_attachments_def image_confirmation_def)

text \<open>
  Claim C9. The pieces appended to the choice are the markdown image references of the
  streamed attachments of type \<open>image/png\<close> or \<open>image/jpeg\<close>, in order, one each and no
  other piece; the attachment list of the result holds all streamed attachments, of every
  type.
\<close>

theorem image_execute_inline_images:
  fixes create :: "'v request \<Rightarrow> chunk list" and arguments :: "string \<rightharpoonup> 'v option"
  defines "streamed \<equiv> concat (map chunk_attachments
             (create (deployment_request image_deployment_name Map.empty arguments)))"
  shows "fst (snd (snd (image_execute create tcid arguments stage0 choice0))) =
           choice0 @ map image_markdown (filter is_inline_image streamed)
       \<and> message_attachments (snd (snd (snd (image_execute create tcid arguments stage0 choice0))))
           = streamed"
proof -
  let ?base = "snd (snd (deployment_execute create image_deployment_name Map.empty tcid
                           arguments stage0))"
  have b: "message_attachments ?base = streamed"
    by (simp only: base_message_attachments streamed_def)
  have "fst (snd (snd (image_execute create tcid arguments stage0 choice0))) =
          choice0 @ map image_markdown (filter is_inline_image (message_attachments ?base))"
    by (simp only: image_execute_parts snd_conv choice_image_post)
  moreover have
    "message_attachments (snd (snd (snd (image_execute create tcid arguments stage0 choice0))))
       = message_attachments ?base"
    by (simp only: image_execute_parts snd_conv message_attachments_image_post)
  ultimately show ?thesis by (simp only: b)
qed

theorem image_execute_inline_images_witness:
  "fst (snd (snd (image_execute (\<lambda>r. example_stream) ''call_1'' example_arguments [] []))) =
     [[NL, CR] @ ''![image](files/cat.png)'' @ [NL, CR],
      [NL, CR] @ ''![image](files/dog.jpg)'' @ [NL, CR]]
   \<and> message_attachments
       (snd (snd (snd (image_execute (\<lambda>r. example_stream) ''call_1'' example_arguments [] []))))
     = [file_attachment ''image/png'' ''files/cat.png'',
        file_attachment ''application/pdf'' ''files/notes.pdf'',
        file_attachment ''image/jpeg'' ''files/dog.jpg'']"
  using image_execute_inline_images
    [where create = "\<lambda>r. example_stream" and arguments = example_arguments
       and tcid = "''call_1''" and ?stage0.0 = "[]" and ?choice0.0 = "[]"]
  by (simp add: example_stream_attachments is_inline_image_def image_markdown_def
        file_attachment_def fmt_opt_def)

section \<open>Properties of the RAG tool\<close>

lemma retrieved_chunks_append:
  "retrieved_chunks chunks (xs @ ys) =
     (case retrieved_chunks chunks xs of
        Inl e \<Rightarrow> Inl e
      | Inr cs \<Rightarrow> (case retrieved_chunks chunks ys of Inl e \<Rightarrow> Inl e | Inr ds \<Rightarrow> Inr (cs @ ds)))"
  by (induction xs) (auto split: sum.splits)

lemma retrieved_chunks_in_range:
  "\<forall>n \<in> set ns. n < length chunks \<Longrightarrow>
   retrieved_chunks chunks (map int ns) = Inr (map ((!) chunks) ns)"
  by (induction ns) (auto simp add: py_index_def)

lemma py_index_minus_one:
  "chunks \<noteq> [] \<Longrightarrow> py_index chunks (- 1) = Inr (last chunks)"
  by (cases chunks rule: rev_cases) (auto simp add: py_index_def nat_add_distrib)

lemma retrieved_chunks_padding:
  "chunks \<noteq> [] \<Longrightarrow> retrieved_chunks chunks (replicate m (- 1)) = Inr (replicate m (last chunks))"
  by (induction m) (auto simp add: py_index_minus_one)

text \<open>
  Claim C1, on the code. With one or two chunks in the index, the search with \<open>k=3\<close>
  gives three labels, the last ones \<open>-1\<close>, and \<open>chunks[-1]\<close> is the last chunk: the
  retrieval raises no error and returns three chunks, the chunks of the document nearest
  first and then the last chunk again in each place left, not the one or two chunks of
  the document once each.
\<close>

theorem rag_retrieve_fewer_than_three:
  fixes distance :: "'e \<Rightarrow> 'e \<Rightarrow> 'd::linorder"
  assumes n: "length index = length chunks" and pos: "chunks \<noteq> []" and small: "length chunks < 3"
  shows "rag_retrieve distance index chunks q =
           Inr (map ((!) chunks) (sort_key (\<lambda>i. distance q (index ! i)) [0..<length chunks])
                @ replicate (3 - length chunks) (last chunks))
       \<and> (\<exists>r. rag_retrieve distance index chunks q = Inr r \<and> length r = 3
              \<and> length chunks < length r \<and> last r = last chunks)"
proof -
  let ?order = "sort_key (\<lambda>i. distance q (index ! i)) [0..<length chunks]"
  have len: "length ?order = length chunks" by simp
  have "set ?order = {0..<length chunks}" by simp
  then have inr: "\<forall>i \<in> set ?order. i < length chunks" by simp
  have s: "index_search distance index q 3 = map int ?order @ replicate (3 - length chunks) (- 1)"
    using small len by (simp add: index_search_def n)
  have r: "rag_retrieve distance index chunks q =
           Inr (map ((!) chunks) ?order @ replicate (3 - length chunks) (last chunks))"
    unfolding rag_retrieve_def s retrieved_chunks_append
    by (simp only: retrieved_chunks_in_range [OF inr] retrieved_chunks_padding [OF pos] sum.case)
  moreover have "length (map ((!) chunks) ?order @ replicate (3 - length chunks) (last chunks)) = 3"
    using small by simp
  moreover have "last (map ((!) chunks) ?order @ replicate (3 - length chunks) (last chunks)) = last chunks"
    using small by simp
  ultimately show ?thesis using small by simp
qed

theorem rag_retrieve_fewer_than_three_witness:
  "length [0::int, 10] = length [''alpha'', ''beta'']
   \<and> [''alpha'', ''beta''] \<noteq> []
   \<and> length [''alpha'', ''beta''] < 3
   \<and> rag_retrieve (\<lambda>a b. \<bar>a - b\<bar>) [0::int, 10] [''alpha'', ''beta''] 9
       = Inr [''beta'', ''alpha'', ''beta'']"
  using rag_retrieve_fewer_than_three
    [of "[0::int, 10]" "[''alpha'', ''beta'']" "\<lambda>a b. \<bar>a - b\<bar>" 9]
  by simp

lemma key_prefix:
  "CHR ''_'' \<notin> set c \<Longrightarrow> takeWhile (\<lambda>x. x \<noteq> CHR ''_'') (cache_document_key c u) = c"
  by (auto simp add: cache_document_key_def takeWhile_tail)

text \<open>
  Claim C4, as the code has it. The keys of two different conversations differ when the
  document URL is the same, and also, for any two URLs, when neither conversation
  identifier contains the separator \<open>_\<close>; then storing an entry for the one conversation
  leaves what the other reads from the cache unchanged.
\<close>

theorem cache_document_key_distinct:
  assumes d: "c1 \<noteq> c2"
    and h: "u1 = u2 \<or> (CHR ''_'' \<notin> set c1 \<and> CHR ''_'' \<notin> set c2)"
  shows "cache_document_key c1 u1 \<noteq> cache_document_key c2 u2
       \<and> cache_get (cache_set cache (cache_document_key c2 u2) index chunks)
            (cache_document_key c1 u1) = cache_get cache (cache_document_key c1 u1)"
proof -
  have ne: "cache_document_key c1 u1 \<noteq> cache_document_key c2 u2"
  proof
    assume eq: "cache_document_key c1 u1 = cache_document_key c2 u2"
    from h show False
    proof
      assume "u1 = u2"
      with eq have "c1 = c2" by (simp add: cache_document_key_def)
      with d show False by simp
    next
      assume s: "CHR ''_'' \<notin> set c1 \<and> CHR ''_'' \<notin> set c2"
      then have "takeWhile (\<lambda>x. x \<noteq> CHR ''_'') (cache_document_key c1 u1) = c1"
        and "takeWhile (\<lambda>x. x \<noteq> CHR ''_'') (cache_document_key c2 u2) = c2"
        by (simp_all add: key_prefix)
      with eq have "c1 = c2" by simp
      with d show False by simp
    qed
  qed
  then show ?thesis by (simp add: cache_get_def cache_set_def)
qed

theorem cache_document_key_distinct_witness:
  "''conv1'' \<noteq> ''conv2''
   \<and> cache_document_key ''conv1'' ''files/a.pdf'' \<noteq> cache_document_key ''conv2'' ''files/a.pdf''
   \<and> cache_get (cache_set Map.empty (cache_document_key ''conv2'' ''files/a.pdf'') [1::int] [''x''])
        (cache_document_key ''conv1'' ''files/a.pdf'') = None"
  using cache_document_key_distinct
    [of "''conv1''" "''conv2''" "''files/a.pdf''" "''files/a.pdf''" Map.empty "[1::int]" "[''x'']"]
  by (simp add: cache_get_def)

text \<open>
  Claim C4 as stated fails: the conversations \<open>a\<close> and \<open>a_b\<close> differ, and the key of
  \<open>a\<close> with the document \<open>b_c\<close> is the key of \<open>a_b\<close> with the document \<open>c\<close>, so the
  first reads the entry stored for the second.
\<close>

theorem cache_document_key_collision:
  "''a'' \<noteq> ''a_b''
   \<and> cache_document_key ''a'' ''b_c'' = cache_document_key ''a_b'' ''c''
   \<and> cache_get (cache_set Map.empty (cache_document_key ''a_b'' ''c'') [1::int] [''x''])
        (cache_document_key ''a'' ''b_c'') = Some ([1], [''x''])"
  by (simp add: cache_document_key_def cache_get_def cache_set_def)

text \<open>
  Claim C5. When the key is not in the cache and the extraction gives no text (nothing,
  or the empty text), the execution returns the text \<open>Error: File content not found.\<close>;
  the only calls made are the cache lookup and the extraction, so no splitting, no
  embedding, no index and no cache entry, and the cache is as it was.
\<close>

theorem rag_execute_no_text:
  fixes env :: "('e, 'd::linorder) rag_env"
  assumes miss: "rs_cache st (cache_document_key conversation_id (rag_file_url arguments)) = None"
    and none: "env_extract_text env (rag_file_url arguments) = None
             \<or> env_extract_text env (rag_file_url arguments) = Some []"
  shows "rag_execute env conversation_id arguments st =
           (st\<lparr>rs_stage := rs_stage st @
                 [''## Request arguments: '' @ [NL],
                  ''**Request**: '' @ rag_request arguments @ [NL, CR],
                  ''**File URL**: '' @ rag_file_url arguments @ [NL, CR],
                  ''No text content could be extracted from the file.''],
               rs_calls := rs_calls st @
                 [Cache_get (cache_document_key conversation_id (rag_file_url arguments)),
                  Extract_text (rag_file_url arguments)]\<rparr>,
            Inr ''Error: File content not found.'')
       \<and> rs_cache (fst (rag_execute env conversation_id arguments st)) = rs_cache st"
  using miss none
  by (auto simp add: rag_execute_def rag_no_text_def cache_get_def Let_def)

theorem rag_execute_no_text_witness:
  "rs_cache example_state (cache_document_key ''conv1'' ''files/missing.pdf'') = None
   \<and> env_extract_text example_env ''files/missing.pdf'' = None
   \<and> snd (rag_execute example_env ''conv1''
        \<lparr>rag_request = ''beta?'', rag_file_url = ''files/missing.pdf''\<rparr> example_state)
       = Inr ''Error: File content not found.''
   \<and> rs_calls (fst (rag_execute example_env ''conv1''
        \<lparr>rag_request = ''beta?'', rag_file_url = ''files/missing.pdf''\<rparr> example_state))
       = [Cache_get ''conv1_files/missing.pdf'', Extract_text ''files/missing.pdf'']
   \<and> rs_cache (fst (rag_execute example_env ''conv1''
        \<lparr>rag_request = ''beta?'', rag_file_url = ''files/missing.pdf''\<rparr> example_state))
       = rs_cache example_state"
  using rag_execute_no_text
    [of example_state "''conv1''" "\<lparr>rag_request = ''beta?'', rag_file_url = ''files/missing.pdf''\<rparr>"
      example_env]
  by (simp add: example_state_def example_env_def cache_document_key_def)

lemma rag_answer_calls:
  fixes env :: "('e, 'd::linorder) rag_env"
  shows "rs_cache (fst (rag_answer env request index chunks st)) = rs_cache st
       \<and> (\<exists>new. rs_calls (fst (rag_answer env request index chunks st)) =
                   rs_calls st @ [Encode_request request, Index_search 3] @ new
                 \<and> set new \<subseteq> range Generate)"
  by (auto simp add: rag_answer_def Let_def split: sum.splits prod.splits)

lemma rag_execute_hit:
  fixes env :: "('e, 'd::linorder) rag_env"
  assumes hit: "rs_cache st (cache_document_key conversation_id (rag_file_url arguments))
                  = Some (index, chunks)"
  shows "rag_execute env conversation_id arguments st =
           rag_answer env (rag_request arguments) index chunks
             (st\<lparr>rs_stage := rs_stage st @
                   [''## Request arguments: '' @ [NL],
                    ''**Request**: '' @ rag_request arguments @ [NL, CR],
                    ''**File URL**: '' @ rag_file_url arguments @ [NL, CR]],
                 rs_calls := rs_calls st @
                   [Cache_get (cache_document_key conversation_id (rag_file_url arguments))]\<rparr>)"
  using hit by (simp add: rag_execute_def cache_get_def Let_def)

text \<open>
  Claim C6. When the key is in the cache, the execution is the answer step on the cached
  index and chunks: the calls it makes are the cache lookup, the embedding of the request,
  the search and the generation, so no extraction, no splitting and no embedding of
  chunks; the cache is as it was, and the result does not depend on the extractor nor on
  the splitter.
\<close>

theorem rag_execute_cache_hit:
  fixes env :: "('e, 'd::linorder) rag_env"
  assumes hit: "rs_cache st (cache_document_key conversation_id (rag_file_url arguments))
                  = Some (index, chunks)"
  shows "rag_execute env conversation_id arguments st =
           rag_answer env (rag_request arguments) index chunks
             (st\<lparr>rs_stage := rs_stage st @
                   [''## Request arguments: '' @ [NL],
                    ''**Request**: '' @ rag_request arguments @ [NL, CR],
                    ''**File URL**: '' @ rag_file_url arguments @ [NL, CR]],
                 rs_calls := rs_calls st @
                   [Cache_get (cache_document_key conversation_id (rag_file_url arguments))]\<rparr>)
       \<and> (\<exists>new. rs_calls (fst (rag_execute env conversation_id arguments st)) =
                   rs_calls st @
                     [Cache_get (cache_document_key conversation_id (rag_file_url arguments)),
                      Encode_request (rag_request arguments), Index_search 3] @ new
                 \<and> set new \<subseteq> range Generate)
       \<and> rs_cache (fst (rag_execute env conversation_id arguments st)) = rs_cache st
       \<and> rag_execute (env\<lparr>env_extract_text := extract', env_split_text := split'\<rparr>)
            conversation_id arguments st = rag_execute env conversation_id arguments st"
proof -
  let ?st1 = "st\<lparr>rs_stage := rs_stage st @
                   [''## Request arguments: '' @ [NL],
                    ''**Request**: '' @ rag_request arguments @ [NL, CR],
                    ''**File URL**: '' @ rag_file_url arguments @ [NL, CR]],
                 rs_calls := rs_calls st @
                   [Cache_get (cache_document_key conversation_id (rag_file_url arguments))]\<rparr>"
  have e: "rag_execute env conversation_id arguments st =
             rag_answer env (rag_request arguments) index chunks ?st1"
    by (rule rag_execute_hit [OF hit])
  have e': "rag_execute (env\<lparr>env_extract_text := extract', env_split_text := split'\<rparr>)
              conversation_id arguments st =
             rag_answer (env\<lparr>env_extract_text := extract', env_split_text := split'\<rparr>)
               (rag_request arguments) index chunks ?st1"
    by (rule rag_execute_hit [OF hit])
  have i: "rag_answer (env\<lparr>env_extract_text := extract', env_split_text := split'\<rparr>)
               (rag_request arguments) index chunks ?st1 =
           rag_answer env (rag_request arguments) index chunks ?st1"
    by (simp add: rag_answer_def Let_def split: sum.splits)
  from rag_answer_calls [of env "rag_request arguments" index chunks ?st1]
  have c: "rs_cache (fst (rag_answer env (rag_request arguments) index chunks ?st1)) = rs_cache st"
    and n: "\<exists>new. rs_calls (fst (rag_answer env (rag_request arguments) index chunks ?st1)) =
                   rs_calls st @
                     [Cache_get (cache_document_key conversation_id (rag_file_url arguments)),
                      Encode_request (rag_request arguments), Index_search 3] @ new
                 \<and> set new \<subseteq> range Generate"
    by simp_all
  show ?thesis using c n by (simp only: e e' i simp_thms)
qed

theorem rag_execute_cache_hit_witness:
  "rs_cache example_state (cache_document_key ''conv1'' ''files/a.txt'')
     = Some ([5, 4], [''alpha'', ''beta''])
   \<and> rs_calls (fst (rag_execute example_env ''conv1''
        \<lparr>rag_request = ''beta?'', rag_file_url = ''files/a.txt''\<rparr> example_state))
       = [Cache_get ''conv1_files/a.txt'', Encode_request ''beta?'', Index_search 3,
          Generate (augmentation ''beta?'' [''alpha'', ''beta'', ''beta''])]
   \<and> snd (rag_execute example_env ''conv1''
        \<lparr>rag_request = ''beta?'', rag_file_url = ''files/a.txt''\<rparr> example_state)
       = Inr ''Hello''"
proof -
  have hit: "rs_cache example_state (cache_document_key ''conv1'' ''files/a.txt'')
     = Some ([5, 4], [''alpha'', ''beta''])"
    by (simp add: example_state_def cache_document_key_def)
  have r: "rag_retrieve (env_distance example_env) [5, 4] [''alpha'', ''beta'']
             (env_encode example_env ''beta?'') = Inr [''alpha'', ''beta'', ''beta'']"
    by (simp add: example_env_def rag_retrieve_def index_search_def py_index_def)
  have g: "env_generate example_env msgs = example_stream" for msgs
    by (simp add: example_env_def)
  have f: "foldl collect_response (stage, []) example_stream = (stage @ [''Hel'', ''lo''], ''Hello'')"
    for stage
    by (simp add: example_stream_def text_chunk_def attachment_chunk_def collect_response_def)
  from rag_execute_cache_hit
    [where st = example_state and conversation_id = "''conv1''"
       and arguments = "\<lparr>rag_request = ''beta?'', rag_file_url = ''files/a.txt''\<rparr>"
       and index = "[5, 4]" and chunks = "[''alpha'', ''beta'']" and env = example_env,
     THEN conjunct1]
  show ?thesis using hit
    by (simp add: rag_answer_def Let_def r g f example_state_def cache_document_key_def)
qed

end
